theory Spec2Isabelle
  imports Main
begin

section \<open>Effects of the client runtime (reactivity/effects.js)\<close>

text \<open>
  The file \<^verbatim>\<open>internal/client/reactivity/effects.js\<close> creates, destroys, pauses and
  resumes effect nodes. Effect objects are mutable and shared (a child sits in its owner's
  \<^verbatim>\<open>effects\<close> array, \<^verbatim>\<open>current_effect\<close> and \<^verbatim>\<open>current_reaction\<close> point at
  objects), so the model keeps them in a store indexed by addresses and threads the whole
  state of the module through every function.
\<close>

subsection \<open>Flags\<close>

text \<open>
  \<^verbatim>\<open>constants.js\<close> is not among the sources. Modelled from the spec: \<^verbatim>\<open>flags\<close> is a
  bitset and every constant is one bit of its own, so a flags word is the set of the bits
  that are on: \<^verbatim>\<open>a | b\<close> is union, \<^verbatim>\<open>(a & b) !== 0\<close> is a non-empty intersection and
  \<^verbatim>\<open>a ^ b\<close> is the symmetric difference.
\<close>

datatype flag =
    EFFECT | PRE_EFFECT | RENDER_EFFECT | BLOCK_EFFECT | BRANCH_EFFECT | ROOT_EFFECT
  | CLEAN | DIRTY | MAYBE_DIRTY | DESTROYED
  | INERT | IS_ELSEIF | EFFECT_RAN

type_synonym flags = "flag set"

definition flags_xor :: "flags \<Rightarrow> flags \<Rightarrow> flags" where
  "flags_xor a b = (a - b) \<union> (b - a)"

subsection \<open>Objects\<close>

text \<open>
  A function value of the program: a function supplied by the caller, the arrow function
  \<^verbatim>\<open>() => untrack(fn)\<close> that \<^verbatim>\<open>effect_root\<close> builds, or \<^verbatim>\<open>noop\<close>.
\<close>

datatype closure = Fn nat | Untrack closure | Noop

datatype exn = Error string | Thrown nat

record transition =
  tid :: nat
  is_global :: bool

text \<open>The \<^verbatim>\<open>Effect\<close> object, field by field (\<^verbatim>\<open>dom\<close> is \<open>dom_node\<close> here).\<close>

record effect =
  parent :: "nat option"
  dom_node :: "nat option"
  deps :: "nat list option"
  f :: flags
  l :: int
  fn :: "closure option"
  effects :: "nat list option"
  deriveds :: "nat list option"
  teardown :: "closure option"
  ctx :: "nat option"
  transitions :: "transition list option"

text \<open>The fields \<^verbatim>\<open>m\<close> (mounted) and \<^verbatim>\<open>e\<close> (deferred effects) of a component context.\<close>

record component_context =
  ctx_m :: bool
  ctx_e :: "nat list option"

text \<open>
  The arrow function that \<^verbatim>\<open>pause_effect\<close> and \<^verbatim>\<open>pause_effects\<close> hand to \<^verbatim>\<open>out\<close>
  (destroy these effects, then call the callback), and the \<^verbatim>\<open>check\<close> closure of
  \<^verbatim>\<open>out\<close>, which owns the counter \<^verbatim>\<open>remaining\<close> (a cell of the state).
\<close>

datatype thunk = Destroy_Then_Call "nat list" closure

datatype on_done = Check nat thunk

text \<open>
  Calls that leave the module: a function value is called, a DOM node is removed, a method
  of a transition manager is called. They are recorded in the order they happen.
\<close>

datatype event =
    Call closure
  | Dom_Remove nat
  | Transition_Stop transition
  | Transition_Out transition on_done
  | Transition_In transition

record world =
  heap :: "nat \<Rightarrow> effect"
  fresh :: nat
  current_effect :: "nat option"
  current_reaction :: "nat option"
  current_component_context :: "nat option"
  contexts :: "nat \<Rightarrow> component_context"
  is_flushing_effect :: bool
  current_untracking :: bool
  queue :: "nat list"
  subscribers :: "nat \<Rightarrow> nat set"
  remaining :: "nat \<Rightarrow> int"
  fresh_cell :: nat
  trace :: "event list"

text \<open>
  \<^verbatim>\<open>execute_effect\<close> and \<^verbatim>\<open>check_dirtiness\<close> live in \<^verbatim>\<open>runtime.js\<close>, which is not
  among the sources, and \<^verbatim>\<open>execute_effect\<close> runs caller code. Both are parameters of the
  model: an execution maps a state to a new state and may throw, a dirtiness check is a
  query. Whatever is proved below holds for every such pair.
\<close>

record runtime =
  execute_effect :: "nat \<Rightarrow> world \<Rightarrow> exn option \<times> world"
  check_dirtiness :: "nat \<Rightarrow> world \<Rightarrow> bool"

definition upd :: "nat \<Rightarrow> (effect \<Rightarrow> effect) \<Rightarrow> world \<Rightarrow> world" where
  "upd a g w = w\<lparr>heap := (heap w)(a := g (heap w a))\<rparr>"

definition emit :: "event \<Rightarrow> world \<Rightarrow> world" where
  "emit ev w = w\<lparr>trace := trace w @ [ev]\<rparr>"

definition list_of :: "'a list option \<Rightarrow> 'a list" where
  "list_of xs = (case xs of None \<Rightarrow> [] | Some ys \<Rightarrow> ys)"

text \<open>
  A \<^verbatim>\<open>for ... of\<close> loop whose body may fail to return. The loops of this module walk
  an array that nothing in the module changes meanwhile, so the model takes the array as it
  is when the loop starts; the body reads everything else from the state of its own turn.
\<close>

fun fold_opt :: "('a \<Rightarrow> 's \<Rightarrow> 's option) \<Rightarrow> 'a list \<Rightarrow> 's \<Rightarrow> 's option" where
  "fold_opt body [] s = Some s"
| "fold_opt body (x # xs) s =
     (case body x s of None \<Rightarrow> None | Some s' \<Rightarrow> fold_opt body xs s')"


subsection \<open>What effects.js imports\<close>

text \<open>
  Modelled from the spec: \<^verbatim>\<open>set_signal_status\<close> of runtime.js is missing. A node has one
  status among clean, dirty, maybe-dirty and destroyed; setting it replaces the old one
  and leaves the other flags alone.
\<close>

definition set_signal_status :: "nat \<Rightarrow> flag \<Rightarrow> world \<Rightarrow> world" where
  "set_signal_status signal status w =
     upd signal (\<lambda>x. x\<lparr>f := (f x - {CLEAN, DIRTY, MAYBE_DIRTY, DESTROYED}) \<union> {status}\<rparr>) w"

text \<open>
  Modelled from the spec: \<^verbatim>\<open>remove_reactions\<close> of runtime.js is missing. It removes the
  node from the subscriber set of every dependency it recorded, from \<open>start_index\<close> on.
\<close>

definition remove_reactions :: "nat \<Rightarrow> nat \<Rightarrow> world \<Rightarrow> world" where
  "remove_reactions signal start_index w =
     w\<lparr>subscribers := (\<lambda>s.
        if s \<in> set (drop start_index (list_of (deps (heap w signal))))
        then subscribers w s - {signal} else subscribers w s)\<rparr>"

text \<open>
  Modelled from the spec: \<^verbatim>\<open>schedule_effect\<close> of runtime.js is missing. It enqueues the
  effect on the scheduler.
\<close>

definition schedule_effect :: "nat \<Rightarrow> world \<Rightarrow> world" where
  "schedule_effect signal w = w\<lparr>queue := queue w @ [signal]\<rparr>"

definition set_is_flushing_effect :: "bool \<Rightarrow> world \<Rightarrow> world" where
  "set_is_flushing_effect v w = w\<lparr>is_flushing_effect := v\<rparr>"



text \<open>
  The methods of a transition manager (dom/elements/transitions.js) and \<^verbatim>\<open>remove\<close>
  (dom/reconciler.js) act on the document; the model records the call.
\<close>

definition transition_stop :: "transition \<Rightarrow> world \<Rightarrow> world" where
  "transition_stop t w = emit (Transition_Stop t) w"

definition transition_out :: "transition \<Rightarrow> on_done \<Rightarrow> world \<Rightarrow> world" where
  "transition_out t c w = emit (Transition_Out t c) w"


definition remove :: "nat \<Rightarrow> world \<Rightarrow> world" where
  "remove d w = emit (Dom_Remove d) w"

definition call :: "closure \<Rightarrow> world \<Rightarrow> world" where
  "call c w = emit (Call c) w"

subsection \<open>create_effect and its callers\<close>

text \<open>Lines 42 to 68 of \<^verbatim>\<open>create_effect\<close>: the new object and its registration.\<close>

definition create_effect_node :: "flags \<Rightarrow> closure \<Rightarrow> world \<Rightarrow> nat \<times> world" where
  "create_effect_node type fn' w =
     (let is_root = (type \<inter> {ROOT_EFFECT} \<noteq> {});
          effect = fresh w;
          w1 = w\<lparr>heap := (heap w)(effect :=
                 \<lparr>parent = (if is_root then None else current_effect w),
                  dom_node = None,
                  deps = None,
                  f = type \<union> {DIRTY},
                  l = 0,
                  fn = Some fn',
                  effects = None,
                  deriveds = None,
                  teardown = None,
                  ctx = current_component_context w,
                  transitions = None\<rparr>),
                fresh := effect + 1\<rparr>;
          w2 = (case current_effect w1 of
                  None \<Rightarrow> w1
                | Some ce \<Rightarrow> upd effect (\<lambda>x. x\<lparr>l := l (heap w1 ce) + 1\<rparr>) w1);
          w3 = (case current_reaction w2 of
                  None \<Rightarrow> w2
                | Some cr \<Rightarrow>
                    if is_root then w2
                    else upd cr (\<lambda>x. x\<lparr>effects :=
                           (case effects x of None \<Rightarrow> Some [effect]
                            | Some es \<Rightarrow> Some (es @ [effect]))\<rparr>) w2)
      in (effect, w3))"

definition create_effect ::
  "runtime \<Rightarrow> flags \<Rightarrow> closure \<Rightarrow> bool \<Rightarrow> bool \<Rightarrow> world \<Rightarrow> (exn + nat) \<times> world"
where
  "create_effect rt type fn' sync init w =
     (let (effect, w1) = create_effect_node type fn' w in
      if init then
        if sync then
          (let previously_flushing_effect = is_flushing_effect w1;
               (thrown, w2) = execute_effect rt effect (set_is_flushing_effect True w1)
           in case thrown of
                Some x \<Rightarrow> (Inl x, set_is_flushing_effect previously_flushing_effect w2)
              | None \<Rightarrow>
                  (Inr effect,
                   set_is_flushing_effect previously_flushing_effect
                     (upd effect (\<lambda>x. x\<lparr>f := f x \<union> {EFFECT_RAN}\<rparr>) w2)))
        else (Inr effect, schedule_effect effect w1)
      else (Inr effect, w1))"

definition orphan_message :: "bool \<Rightarrow> string \<Rightarrow> string" where
  "orphan_message DEV rune =
     ''ERR_SVELTE_ORPHAN_EFFECT'' @
     (if DEV then '': The Svelte '' @ rune @ '' rune can only be used during component initialisation.''
      else '''')"

definition pre_effect :: "runtime \<Rightarrow> closure \<Rightarrow> world \<Rightarrow> (exn + nat) \<times> world" where
  "pre_effect rt fn' w = create_effect rt {PRE_EFFECT} fn' True True w"

definition render_effect :: "runtime \<Rightarrow> closure \<Rightarrow> world \<Rightarrow> (exn + nat) \<times> world" where
  "render_effect rt fn' w = create_effect rt {RENDER_EFFECT} fn' True True w"

definition effect' :: "runtime \<Rightarrow> closure \<Rightarrow> world \<Rightarrow> (exn + nat) \<times> world" where
  "effect' rt fn' w = create_effect rt {EFFECT} fn' False True w"

definition block :: "runtime \<Rightarrow> closure \<Rightarrow> world \<Rightarrow> (exn + nat) \<times> world" where
  "block rt fn' w = create_effect rt ({RENDER_EFFECT} \<union> {BLOCK_EFFECT}) fn' True True w"

definition branch :: "runtime \<Rightarrow> closure \<Rightarrow> world \<Rightarrow> (exn + nat) \<times> world" where
  "branch rt fn' w = create_effect rt ({RENDER_EFFECT} \<union> {BRANCH_EFFECT}) fn' True True w"

definition user_effect :: "bool \<Rightarrow> runtime \<Rightarrow> closure \<Rightarrow> world \<Rightarrow> (exn + nat) \<times> world" where
  "user_effect DEV rt fn' w =
     (case current_effect w of
        None \<Rightarrow> (Inl (Error (orphan_message DEV ''$effect'')), w)
      | Some ce \<Rightarrow>
          (let defer =
                 (f (heap w ce) \<inter> {RENDER_EFFECT} \<noteq> {} \<and>
                  (case current_component_context w of
                     None \<Rightarrow> False
                   | Some cc \<Rightarrow> \<not> ctx_m (contexts w cc)))
           in case create_effect rt {EFFECT} fn' False (\<not> defer) w of
                (Inl x, w1) \<Rightarrow> (Inl x, w1)
              | (Inr effect, w1) \<Rightarrow>
                  if defer then
                    (case current_component_context w1 of
                       None \<Rightarrow> (Inr effect, w1)
                     | Some context \<Rightarrow>
                         (Inr effect,
                          w1\<lparr>contexts := (contexts w1)(context :=
                               (contexts w1 context)\<lparr>ctx_e :=
                                  Some (list_of (ctx_e (contexts w1 context)) @ [effect])\<rparr>)\<rparr>))
                  else (Inr effect, w1)))"

definition user_pre_effect :: "bool \<Rightarrow> runtime \<Rightarrow> closure \<Rightarrow> world \<Rightarrow> (exn + nat) \<times> world" where
  "user_pre_effect DEV rt fn' w =
     (case current_effect w of
        None \<Rightarrow> (Inl (Error (orphan_message DEV ''$effect.pre'')), w)
      | Some ce \<Rightarrow> pre_effect rt fn' w)"

subsection \<open>destroy_effect\<close>

text \<open>
  Modelled from the spec: \<^verbatim>\<open>destroy_children\<close> of runtime.js is missing. It destroys
  the children of a node depth-first, the effects and the deriveds created during its last
  run, and leaves the node without children. A derived that is destroyed is a node that
  destroys its own children, leaves the subscriber sets of its dependencies and is marked
  destroyed.

  The recursion follows the \<^verbatim>\<open>effects\<close> and \<^verbatim>\<open>deriveds\<close> arrays of the store and
  so need not end (an array may hold its own owner): the first argument bounds the depth
  of calls, and \<open>None\<close> says that the bound was reached.
\<close>

function
  destroy_effect :: "nat \<Rightarrow> nat \<Rightarrow> world \<Rightarrow> world option" and
  destroy_derived :: "nat \<Rightarrow> nat \<Rightarrow> world \<Rightarrow> world option" and
  destroy_children :: "nat \<Rightarrow> nat \<Rightarrow> world \<Rightarrow> world option"
where
  "destroy_effect 0 effect w = None"
| "destroy_effect (Suc n) effect w =
     (case destroy_children n effect w of
        None \<Rightarrow> None
      | Some w1 \<Rightarrow>
          (let w2 = remove_reactions effect 0 w1;
               w3 = set_signal_status effect DESTROYED w2;
               w4 = foldl (\<lambda>w' t. transition_stop t w') w3 (list_of (transitions (heap w3 effect)));
               w5 = (case teardown (heap w4 effect) of None \<Rightarrow> w4 | Some td \<Rightarrow> call td w4);
               w6 = (case dom_node (heap w5 effect) of None \<Rightarrow> w5 | Some d \<Rightarrow> remove d w5)
           in Some (upd effect (\<lambda>x. x\<lparr>effects := None, teardown := None, ctx := None,
                                      dom_node := None, deps := None, fn := None\<rparr>) w6)))"
| "destroy_derived 0 signal w = None"
| "destroy_derived (Suc n) signal w =
     (case destroy_children n signal w of
        None \<Rightarrow> None
      | Some w1 \<Rightarrow> Some (set_signal_status signal DESTROYED (remove_reactions signal 0 w1)))"
| "destroy_children n signal w =
     (case fold_opt (destroy_effect n) (list_of (effects (heap w signal))) w of
        None \<Rightarrow> None
      | Some w1 \<Rightarrow>
          (case fold_opt (destroy_derived n) (list_of (deriveds (heap w1 signal))) w1 of
             None \<Rightarrow> None
           | Some w2 \<Rightarrow> Some (upd signal (\<lambda>x. x\<lparr>effects := None, deriveds := None\<rparr>) w2)))"
  by pat_completeness auto
termination
  by (relation "measure (\<lambda>x. case x of
        Inl (n, _) \<Rightarrow> 2 * n
      | Inr (Inl (n, _)) \<Rightarrow> 2 * n
      | Inr (Inr (n, _)) \<Rightarrow> 2 * n + 1)") auto




subsection \<open>pause_effect\<close>

text \<open>The arrow function handed to \<^verbatim>\<open>out\<close>, run.\<close>

fun run_thunk :: "nat \<Rightarrow> thunk \<Rightarrow> world \<Rightarrow> world option" where
  "run_thunk n (Destroy_Then_Call es callback) w =
     (case fold_opt (destroy_effect n) es w of
        None \<Rightarrow> None
      | Some w1 \<Rightarrow> Some (call callback w1))"


definition out :: "nat \<Rightarrow> transition list \<Rightarrow> thunk \<Rightarrow> world \<Rightarrow> world option" where
  "out n ts fn' w =
     (if int (length ts) > 0 then
        (let cell = fresh_cell w;
             w1 = w\<lparr>remaining := (remaining w)(cell := int (length ts)), fresh_cell := cell + 1\<rparr>
         in Some (foldl (\<lambda>w' t. transition_out t (Check cell fn') w') w1 ts))
      else run_thunk n fn' w)"

fun pause_children ::
  "nat \<Rightarrow> nat \<Rightarrow> bool \<Rightarrow> world \<times> transition list \<Rightarrow> (world \<times> transition list) option"
where
  "pause_children 0 effect local s = None"
| "pause_children (Suc n) effect local (w, ts) =
     (if f (heap w effect) \<inter> {INERT} \<noteq> {} then Some (w, ts)
      else
        (let w1 = upd effect (\<lambda>x. x\<lparr>f := flags_xor (f x) {INERT}\<rparr>) w;
             ts1 = ts @ filter (\<lambda>t. is_global t \<or> local) (list_of (transitions (heap w1 effect)))
         in fold_opt
              (\<lambda>child s'.
                 (let transparent =
                        (f (heap (fst s') child) \<inter> {IS_ELSEIF} \<noteq> {} \<or>
                         f (heap (fst s') child) \<inter> {BRANCH_EFFECT} \<noteq> {})
                  in pause_children n child (if transparent then local else False) s'))
              (list_of (effects (heap w1 effect))) (w1, ts1)))"


definition pause_effects :: "nat \<Rightarrow> nat list \<Rightarrow> closure \<Rightarrow> world \<Rightarrow> world option" where
  "pause_effects n es callback w =
     (case fold_opt (\<lambda>effect s. pause_children n effect True s) es (w, []) of
        None \<Rightarrow> None
      | Some (w1, ts) \<Rightarrow> out n ts (Destroy_Then_Call es callback) w1)"

subsection \<open>resume_effect\<close>



subsection \<open>The bodies of the loops, by name\<close>





subsection \<open>Effect trees\<close>

text \<open>
  The spec has ownership as a tree. A tree of addresses is in the store when the
  \<^verbatim>\<open>effects\<close> array of each of its nodes lists the roots of the node's subtrees, in
  order; it is a tree of the store (no node shared, no cycle) when its addresses are
  distinct. \<open>depth_within n t\<close> says that \<open>t\<close> has at most \<open>n\<close> levels.
\<close>

datatype tree = Tree nat "tree list"

fun tree_root :: "tree \<Rightarrow> nat" where
  "tree_root (Tree a ts) = a"


fun in_store :: "(nat \<Rightarrow> effect) \<Rightarrow> tree \<Rightarrow> bool" where
  "in_store h (Tree a ts) =
     (list_of (effects (h a)) = map tree_root ts \<and> list_all (in_store h) ts)"




subsection \<open>What the spec says of a pause and of a resume\<close>

text \<open>
  These definitions follow the words of the spec, not the code. A child is transparent when
  it is a branch or an else-if. A pause reaches a node when no node on the path to it,
  the node included, is inert already; a resume reaches it when all of them are inert. A
  transition of the node at the end of a path is eligible when it is global, or when the
  walk started inside its family (\<open>local\<close>) and every node on the path below the root
  is transparent.
\<close>

definition is_inert :: "(nat \<Rightarrow> effect) \<Rightarrow> nat \<Rightarrow> bool" where
  "is_inert h a = (INERT \<in> f (h a))"

definition transparent :: "(nat \<Rightarrow> effect) \<Rightarrow> nat \<Rightarrow> bool" where
  "transparent h a = (IS_ELSEIF \<in> f (h a) \<or> BRANCH_EFFECT \<in> f (h a))"

definition pause_reaches :: "(nat \<Rightarrow> effect) \<Rightarrow> nat list \<Rightarrow> bool" where
  "pause_reaches h p = list_all (\<lambda>a. \<not> is_inert h a) p"

definition resume_reaches :: "(nat \<Rightarrow> effect) \<Rightarrow> nat list \<Rightarrow> bool" where
  "resume_reaches h p = list_all (is_inert h) p"

definition eligible :: "(nat \<Rightarrow> effect) \<Rightarrow> bool \<Rightarrow> nat list \<Rightarrow> transition list" where
  "eligible h local p =
     filter (\<lambda>t. is_global t \<or> (local \<and> list_all (transparent h) (tl p)))
       (list_of (transitions (h (last p))))"





text \<open>The store with the inert flag set, or cleared, on a set of nodes.\<close>

definition set_inert :: "nat set \<Rightarrow> (nat \<Rightarrow> effect) \<Rightarrow> nat \<Rightarrow> effect" where
  "set_inert S h = (\<lambda>a. if a \<in> S then (h a)\<lparr>f := f (h a) \<union> {INERT}\<rparr> else h a)"

definition clear_inert :: "nat set \<Rightarrow> (nat \<Rightarrow> effect) \<Rightarrow> nat \<Rightarrow> effect" where
  "clear_inert S h = (\<lambda>a. if a \<in> S then (h a)\<lparr>f := f (h a) - {INERT}\<rparr> else h a)"


subsection \<open>Owned trees\<close>

text \<open>
  What a node owns: its child effects and its child deriveds, each with what it owns in
  turn. The tree is in the store when the \<^verbatim>\<open>effects\<close> and \<^verbatim>\<open>deriveds\<close> arrays of
  each node list the roots of its subtrees, in order; its addresses are distinct when no
  node has two owners. \<open>owned_within n t\<close> says that \<open>t\<close> has at most \<open>n\<close>
  levels.
\<close>

datatype owned = Owned nat "owned list" "owned list"

fun owned_root :: "owned \<Rightarrow> nat" where
  "owned_root (Owned a es ds) = a"

fun owned_nodes :: "owned \<Rightarrow> nat list" where
  "owned_nodes (Owned a es ds) = a # concat (map owned_nodes es) @ concat (map owned_nodes ds)"






subsection \<open>Concrete states\<close>

text \<open>Small states and runtimes on which the theorems below are exercised.\<close>

definition idle_runtime :: runtime where
  "idle_runtime = \<lparr>execute_effect = (\<lambda>a w. (None, w)), check_dirtiness = (\<lambda>a w. False)\<rparr>"

definition throwing_runtime :: runtime where
  "throwing_runtime =
     \<lparr>execute_effect = (\<lambda>a w. (Some (Thrown 7), w)), check_dirtiness = (\<lambda>a w. True)\<rparr>"

definition blank :: effect where
  "blank = \<lparr>parent = None, dom_node = None, deps = None, f = {}, l = 0, fn = None,
     effects = None, deriveds = None, teardown = None, ctx = None, transitions = None\<rparr>"

definition empty_world :: world where
  "empty_world = \<lparr>heap = (\<lambda>a. blank), fresh = 1, current_effect = None, current_reaction = None,
     current_component_context = None, contexts = (\<lambda>c. \<lparr>ctx_m = False, ctx_e = None\<rparr>),
     is_flushing_effect = False, current_untracking = False, queue = [],
     subscribers = (\<lambda>s. {}), remaining = (\<lambda>c. 0), fresh_cell = 0, trace = []\<rparr>"

text \<open>A render effect at address 0 is executing inside a component that is not mounted yet.\<close>

definition rendering_world :: world where
  "rendering_world =
     empty_world\<lparr>heap := (heap empty_world)(0 := blank\<lparr>f := {RENDER_EFFECT}\<rparr>),
       current_effect := Some 0, current_reaction := Some 0,
       current_component_context := Some 0\<rparr>"









section \<open>Properties\<close>

subsection \<open>The new object\<close>

lemma create_effect_node_fields:
  "fst (create_effect_node type fn' w) = fresh w"
  "is_flushing_effect (snd (create_effect_node type fn' w)) = is_flushing_effect w"
  "queue (snd (create_effect_node type fn' w)) = queue w"
  "contexts (snd (create_effect_node type fn' w)) = contexts w"
  "current_component_context (snd (create_effect_node type fn' w)) = current_component_context w"
  "current_effect (snd (create_effect_node type fn' w)) = current_effect w"
  "current_reaction (snd (create_effect_node type fn' w)) = current_reaction w"
  "trace (snd (create_effect_node type fn' w)) = trace w"
  "subscribers (snd (create_effect_node type fn' w)) = subscribers w"
  "fresh (snd (create_effect_node type fn' w)) = fresh w + 1"
  by (simp_all add: create_effect_node_def Let_def upd_def split: option.splits)

lemma create_effect_node_pair:
  "create_effect_node type fn' w = (fresh w, snd (create_effect_node type fn' w))"
  using create_effect_node_fields(1) [of type fn' w] by (metis prod.collapse)

lemma create_effect_node_heap:
  "heap (snd (create_effect_node type fn' w)) (fresh w) =
     \<lparr>parent = (if type \<inter> {ROOT_EFFECT} \<noteq> {} then None else current_effect w),
      dom_node = None, deps = None, f = type \<union> {DIRTY},
      l = (case current_effect w of
             None \<Rightarrow> 0
           | Some ce \<Rightarrow> (if ce = fresh w then 0 else l (heap w ce)) + 1),
      fn = Some fn',
      effects = (if current_reaction w = Some (fresh w) \<and> type \<inter> {ROOT_EFFECT} = {}
                 then Some [fresh w] else None),
      deriveds = None, teardown = None, ctx = current_component_context w, transitions = None\<rparr>"
  by (simp add: create_effect_node_def Let_def upd_def split: option.splits)

lemma create_effect_node_others:
  "a \<noteq> fresh w \<Longrightarrow>
   heap (snd (create_effect_node type fn' w)) a =
     (if current_reaction w = Some a \<and> type \<inter> {ROOT_EFFECT} = {}
      then (heap w a)\<lparr>effects := Some (list_of (effects (heap w a)) @ [fresh w])\<rparr>
      else heap w a)"
  by (auto simp: create_effect_node_def Let_def upd_def list_of_def split: option.splits)

subsection \<open>Creation\<close>

text \<open>
  C4, as the code has it. The new node is the fresh object; its parent is the current effect,
  or null for the root kind; it is created dirty; when a reaction is executing and the kind
  is not root, the node is pushed onto the \<^verbatim>\<open>effects\<close> of that reaction. Then, when
  \<^verbatim>\<open>init\<close> holds (the default): a synchronous effect is executed at once, on the state
  that the registration left, and any other is enqueued on the scheduler. When \<^verbatim>\<open>init\<close>
  is false the node is neither executed nor enqueued.
\<close>

theorem create_effect_registers_then_runs_or_enqueues:
  "fst (create_effect_node type fn' w) = fresh w \<and>
   (let is_root = (type \<inter> {ROOT_EFFECT} \<noteq> {});
        w1 = snd (create_effect_node type fn' w)
    in parent (heap w1 (fresh w)) = (if is_root then None else current_effect w) \<and>
       f (heap w1 (fresh w)) = type \<union> {DIRTY} \<and>
       (case current_reaction w of
          None \<Rightarrow> True
        | Some cr \<Rightarrow>
            effects (heap w1 cr) =
              (if is_root then (if cr = fresh w then None else effects (heap w cr))
               else Some ((if cr = fresh w then [] else list_of (effects (heap w cr))) @ [fresh w]))) \<and>
       create_effect rt type fn' sync init w =
         (if init then
            if sync then
              (case execute_effect rt (fresh w) (set_is_flushing_effect True w1) of
                 (Some x, w2) \<Rightarrow> (Inl x, set_is_flushing_effect (is_flushing_effect w) w2)
               | (None, w2) \<Rightarrow>
                   (Inr (fresh w),
                    set_is_flushing_effect (is_flushing_effect w)
                      (upd (fresh w) (\<lambda>x. x\<lparr>f := f x \<union> {EFFECT_RAN}\<rparr>) w2)))
            else (Inr (fresh w), w1\<lparr>queue := queue w @ [fresh w]\<rparr>)
          else (Inr (fresh w), w1)))"
proof -
  let ?w1 = "snd (create_effect_node type fn' w)"
  note n = create_effect_node_pair [of type fn' w]
  have a: "fst (create_effect_node type fn' w) = fresh w"
    by (rule create_effect_node_fields)
  have b: "parent (heap ?w1 (fresh w)) =
             (if type \<inter> {ROOT_EFFECT} \<noteq> {} then None else current_effect w)"
    by (simp add: create_effect_node_heap)
  have c: "f (heap ?w1 (fresh w)) = type \<union> {DIRTY}"
    by (simp add: create_effect_node_heap)
  have d: "(case current_reaction w of
          None \<Rightarrow> True
        | Some cr \<Rightarrow>
            effects (heap ?w1 cr) =
              (if type \<inter> {ROOT_EFFECT} \<noteq> {} then (if cr = fresh w then None else effects (heap w cr))
               else Some ((if cr = fresh w then [] else list_of (effects (heap w cr))) @ [fresh w])))"
  proof (cases "current_reaction w")
    case None
    then show ?thesis by simp
  next
    case (Some cr)
    show ?thesis
    proof (cases "cr = fresh w")
      case True
      then show ?thesis using Some by (simp add: create_effect_node_heap)
    next
      case False
      then show ?thesis using Some by (simp add: create_effect_node_others)
    qed
  qed
  have e: "create_effect rt type fn' sync init w =
         (if init then
            if sync then
              (case execute_effect rt (fresh w) (set_is_flushing_effect True ?w1) of
                 (Some x, w2) \<Rightarrow> (Inl x, set_is_flushing_effect (is_flushing_effect w) w2)
               | (None, w2) \<Rightarrow>
                   (Inr (fresh w),
                    set_is_flushing_effect (is_flushing_effect w)
                      (upd (fresh w) (\<lambda>x. x\<lparr>f := f x \<union> {EFFECT_RAN}\<rparr>) w2)))
            else (Inr (fresh w), ?w1\<lparr>queue := queue w @ [fresh w]\<rparr>)
          else (Inr (fresh w), ?w1))"
    unfolding create_effect_def
    by (subst n) (simp add: create_effect_node_fields schedule_effect_def
          split: prod.splits option.splits)
  show ?thesis unfolding Let_def by (intro conjI) (fact a, fact b, fact c, fact d, fact e)
qed

theorem create_effect_registers_then_runs_or_enqueues_witness:
  "create_effect idle_runtime {EFFECT} (Fn 0) False True empty_world =
     (Inr 1, (snd (create_effect_node {EFFECT} (Fn 0) empty_world))\<lparr>queue := [1]\<rparr>) \<and>
   parent (heap (snd (create_effect_node {EFFECT} (Fn 0) empty_world)) 1) = None"
  using create_effect_registers_then_runs_or_enqueues
          [of "{EFFECT}" "Fn 0" empty_world idle_runtime False True]
  by (simp add: empty_world_def Let_def)

text \<open>
  C4 as stated fails: \<^verbatim>\<open>create_effect(EFFECT, fn, false, false)\<close>, the call that
  \<^verbatim>\<open>user_effect\<close> makes for a deferred effect, creates a dirty node that is not
  synchronous and still is not enqueued.
\<close>

theorem create_effect_without_init_is_not_enqueued:
  "fst (create_effect idle_runtime {EFFECT} (Fn 0) False False empty_world) = Inr 1 \<and>
   f (heap (snd (create_effect idle_runtime {EFFECT} (Fn 0) False False empty_world)) 1) =
     {EFFECT} \<union> {DIRTY} \<and>
   queue (snd (create_effect idle_runtime {EFFECT} (Fn 0) False False empty_world)) = []"
  by (simp add: create_effect_def create_effect_node_def empty_world_def blank_def Let_def)

text \<open>
  C10. A synchronous \<^verbatim>\<open>create_effect\<close> returns with \<^verbatim>\<open>is_flushing_effect\<close> as it was
  before the call, whatever the execution did and whether or not it threw. The store it
  leaves is the one the execution left, with \<^verbatim>\<open>EFFECT_RAN\<close> added to the new effect
  exactly when the execution did not throw.
\<close>

theorem create_effect_restores_is_flushing_effect:
  "is_flushing_effect (snd (create_effect rt type fn' True init w)) = is_flushing_effect w \<and>
   (let r = execute_effect rt (fresh w)
              (set_is_flushing_effect True (snd (create_effect_node type fn' w)))
    in heap (snd (create_effect rt type fn' True True w)) =
         (if fst r = None
          then (heap (snd r))(fresh w :=
                 (heap (snd r) (fresh w))\<lparr>f := f (heap (snd r) (fresh w)) \<union> {EFFECT_RAN}\<rparr>)
          else heap (snd r)))"
proof -
  obtain w1 where n: "create_effect_node type fn' w = (fresh w, w1)"
    using create_effect_node_pair by blast
  have fl: "is_flushing_effect w1 = is_flushing_effect w"
    using create_effect_node_fields(2) [of type fn' w] n by simp
  obtain thrown w2 where
    x: "execute_effect rt (fresh w) (set_is_flushing_effect True w1) = (thrown, w2)"
    by (cases "execute_effect rt (fresh w) (set_is_flushing_effect True w1)")
  show ?thesis
    using n fl x
    by (cases thrown) (simp_all add: create_effect_def Let_def set_is_flushing_effect_def upd_def)
qed

theorem create_effect_restores_is_flushing_effect_witness:
  "is_flushing_effect
     (snd (create_effect throwing_runtime {RENDER_EFFECT} (Fn 0) True True empty_world)) = False \<and>
   fst (create_effect throwing_runtime {RENDER_EFFECT} (Fn 0) True True empty_world) =
     Inl (Thrown 7) \<and>
   f (heap (snd (create_effect throwing_runtime {RENDER_EFFECT} (Fn 0) True True empty_world)) 1) =
     {RENDER_EFFECT, DIRTY} \<and>
   f (heap (snd (create_effect idle_runtime {RENDER_EFFECT} (Fn 0) True True empty_world)) 1) =
     {RENDER_EFFECT, DIRTY, EFFECT_RAN}"
  using create_effect_restores_is_flushing_effect
          [of throwing_runtime "{RENDER_EFFECT}" "Fn 0" True empty_world]
        create_effect_restores_is_flushing_effect
          [of idle_runtime "{RENDER_EFFECT}" "Fn 0" True empty_world]
  by (auto simp: throwing_runtime_def idle_runtime_def empty_world_def create_effect_def
        create_effect_node_def Let_def set_is_flushing_effect_def upd_def)

text \<open>
  C7. When the execution that a synchronous \<^verbatim>\<open>create_effect\<close> starts throws, the call
  throws the same exception. The state it leaves is the one the single execution left, with
  \<^verbatim>\<open>is_flushing_effect\<close> put back: nothing is caught, and nothing is run again.
\<close>

theorem create_effect_propagates_exception:
  assumes "execute_effect rt (fresh w)
             (set_is_flushing_effect True (snd (create_effect_node type fn' w))) = (Some x, w2)"
  shows "create_effect rt type fn' True True w =
           (Inl x, set_is_flushing_effect (is_flushing_effect w) w2)"
proof -
  obtain w1 where n: "create_effect_node type fn' w = (fresh w, w1)"
    using create_effect_node_pair by blast
  have fl: "is_flushing_effect w1 = is_flushing_effect w"
    using create_effect_node_fields(2) [of type fn' w] n by simp
  show ?thesis using assms n fl by (simp add: create_effect_def)
qed

theorem create_effect_propagates_exception_witness:
  "create_effect throwing_runtime {PRE_EFFECT} (Fn 0) True True empty_world =
     (Inl (Thrown 7),
      set_is_flushing_effect False
        (set_is_flushing_effect True (snd (create_effect_node {PRE_EFFECT} (Fn 0) empty_world))))"
proof -
  have "execute_effect throwing_runtime (fresh empty_world)
          (set_is_flushing_effect True (snd (create_effect_node {PRE_EFFECT} (Fn 0) empty_world))) =
        (Some (Thrown 7),
         set_is_flushing_effect True (snd (create_effect_node {PRE_EFFECT} (Fn 0) empty_world)))"
    by (simp add: throwing_runtime_def)
  from create_effect_propagates_exception [OF this]
  show ?thesis by (simp add: empty_world_def)
qed

subsection \<open>User effects\<close>

text \<open>
  C5. \<^verbatim>\<open>user_effect\<close> throws if and only if no effect is executing, and what it throws
  then is the orphan error; \<^verbatim>\<open>user_pre_effect\<close> throws the orphan error when no effect is
  executing, and otherwise is \<^verbatim>\<open>pre_effect\<close>, which throws only what the execution of
  the new effect throws. The orphan error leaves the state as it was: it reaches the caller
  before anything is created. Its message starts with the error code.
\<close>

theorem orphan_effect_error:
  "(isl (fst (user_effect DEV rt fn' w)) \<longleftrightarrow> current_effect w = None) \<and>
   (if current_effect w = None
    then user_effect DEV rt fn' w = (Inl (Error (orphan_message DEV ''$effect'')), w) \<and>
         user_pre_effect DEV rt fn' w = (Inl (Error (orphan_message DEV ''$effect.pre'')), w)
    else user_pre_effect DEV rt fn' w = create_effect rt {PRE_EFFECT} fn' True True w \<and>
         (case execute_effect rt (fresh w)
                 (set_is_flushing_effect True (snd (create_effect_node {PRE_EFFECT} fn' w))) of
            (None, w2) \<Rightarrow> fst (user_pre_effect DEV rt fn' w) = Inr (fresh w)
          | (Some x, w2) \<Rightarrow> fst (user_pre_effect DEV rt fn' w) = Inl x)) \<and>
   take 24 (orphan_message DEV rune) = ''ERR_SVELTE_ORPHAN_EFFECT''"
proof -
  note n = create_effect_node_pair [of _ fn' w]
  have a: "isl (fst (user_effect DEV rt fn' w)) \<longleftrightarrow> current_effect w = None"
    by (auto simp: user_effect_def create_effect_def Let_def
             split: option.splits prod.splits if_splits)
  have b: "current_effect w = None \<Longrightarrow>
      user_effect DEV rt fn' w = (Inl (Error (orphan_message DEV ''$effect'')), w) \<and>
      user_pre_effect DEV rt fn' w = (Inl (Error (orphan_message DEV ''$effect.pre'')), w)"
    by (simp add: user_effect_def user_pre_effect_def)
  have c: "current_effect w \<noteq> None \<Longrightarrow>
      user_pre_effect DEV rt fn' w = create_effect rt {PRE_EFFECT} fn' True True w \<and>
         (case execute_effect rt (fresh w)
                 (set_is_flushing_effect True (snd (create_effect_node {PRE_EFFECT} fn' w))) of
            (None, w2) \<Rightarrow> fst (user_pre_effect DEV rt fn' w) = Inr (fresh w)
          | (Some x, w2) \<Rightarrow> fst (user_pre_effect DEV rt fn' w) = Inl x)"
    unfolding user_pre_effect_def pre_effect_def create_effect_def
    by (subst (1 2 3) n) (auto split: option.splits prod.splits)
  have d: "take 24 (orphan_message DEV rune) = ''ERR_SVELTE_ORPHAN_EFFECT''"
    by (simp add: orphan_message_def)
  show ?thesis using a b c d by simp
qed

theorem orphan_effect_error_witness:
  "isl (fst (user_effect True idle_runtime (Fn 0) empty_world)) \<and>
   user_effect True idle_runtime (Fn 0) empty_world =
     (Inl (Error (orphan_message True ''$effect'')), empty_world) \<and>
   user_pre_effect True idle_runtime (Fn 0) empty_world =
     (Inl (Error (orphan_message True ''$effect.pre'')), empty_world)"
proof -
  have "current_effect empty_world = None" by (simp add: empty_world_def)
  then show ?thesis using orphan_effect_error [of True idle_runtime "Fn 0" empty_world] by simp
qed

text \<open>
  C6. Let an effect be executing when \<^verbatim>\<open>user_effect\<close> is called. The new effect is
  deferred exactly when the executing effect is a render effect and there is a component
  context that is not mounted yet. A deferred effect is pushed onto the \<^verbatim>\<open>e\<close> list of
  that context and the scheduler's queue is left alone; otherwise the effect is enqueued and
  the contexts are left alone. In neither case is it executed by the call: the result does
  not depend on the runtime's executions, and nothing is called. \<^verbatim>\<open>user_pre_effect\<close> is
  a synchronous \<^verbatim>\<open>create_effect\<close>, run at creation whether the component is mounted or
  not.
\<close>

theorem user_effect_deferred_until_mount:
  assumes "current_effect w = Some ce"
  shows
  "(let defer = (f (heap w ce) \<inter> {RENDER_EFFECT} \<noteq> {} \<and>
                 (case current_component_context w of
                    None \<Rightarrow> False
                  | Some cc \<Rightarrow> \<not> ctx_m (contexts w cc)));
        w' = snd (user_effect DEV rt fn' w)
    in fst (user_effect DEV rt fn' w) = Inr (fresh w) \<and>
       user_effect DEV rt fn' w = user_effect DEV rt' fn' w \<and>
       trace w' = trace w \<and>
       (if defer
        then queue w' = queue w \<and>
             (case current_component_context w of
                None \<Rightarrow> False
              | Some cc \<Rightarrow>
                  ctx_e (contexts w' cc) = Some (list_of (ctx_e (contexts w cc)) @ [fresh w]))
        else queue w' = queue w @ [fresh w] \<and> contexts w' = contexts w)) \<and>
   user_pre_effect DEV rt fn' w = create_effect rt {PRE_EFFECT} fn' True True w"
proof -
  obtain w1 where n: "create_effect_node {EFFECT} fn' w = (fresh w, w1)"
    using create_effect_node_pair by blast
  have w1: "queue w1 = queue w" "contexts w1 = contexts w" "trace w1 = trace w"
    "current_component_context w1 = current_component_context w"
    using create_effect_node_fields [of "{EFFECT}" fn' w] n by simp_all
  have u: "user_effect DEV rt fn' w =
     (if f (heap w ce) \<inter> {RENDER_EFFECT} \<noteq> {} \<and>
                 (case current_component_context w of
                    None \<Rightarrow> False
                  | Some cc \<Rightarrow> \<not> ctx_m (contexts w cc))
      then (case current_component_context w of None \<Rightarrow> (Inr (fresh w), w1)
            | Some cc \<Rightarrow> (Inr (fresh w), w1\<lparr>contexts := (contexts w)(cc :=
                               (contexts w cc)\<lparr>ctx_e :=
                                  Some (list_of (ctx_e (contexts w cc)) @ [fresh w])\<rparr>)\<rparr>))
      else (Inr (fresh w), w1\<lparr>queue := queue w @ [fresh w]\<rparr>))" for rt
    unfolding user_effect_def create_effect_def Let_def
    by (simp add: assms n w1 schedule_effect_def split: option.splits)
  have p: "user_pre_effect DEV rt fn' w = create_effect rt {PRE_EFFECT} fn' True True w"
    by (simp add: assms user_pre_effect_def pre_effect_def)
  have q: "user_effect DEV rt fn' w = user_effect DEV rt' fn' w"
    by (simp only: u)
  show ?thesis
    unfolding Let_def
    apply (intro conjI)
        apply (simp add: u split: option.splits)
       apply (rule q)
      apply (simp add: u w1 split: option.splits)
     apply (simp add: u w1 split: option.splits)
    apply (rule p)
    done
qed

theorem user_effect_deferred_until_mount_witness:
  "fst (user_effect False idle_runtime (Fn 0) rendering_world) = Inr 1 \<and>
   queue (snd (user_effect False idle_runtime (Fn 0) rendering_world)) = [] \<and>
   ctx_e (contexts (snd (user_effect False idle_runtime (Fn 0) rendering_world)) 0) = Some [1]"
proof -
  have a: "current_effect rendering_world = Some 0"
    "current_component_context rendering_world = Some 0"
    "f (heap rendering_world 0) = {RENDER_EFFECT}" "\<not> ctx_m (contexts rendering_world 0)"
    "ctx_e (contexts rendering_world 0) = None" "queue rendering_world = []"
    "fresh rendering_world = 1"
    by (simp_all add: rendering_world_def empty_world_def blank_def)
  show ?thesis
    using user_effect_deferred_until_mount [OF a(1), of False idle_runtime "Fn 0" idle_runtime]
    by (simp add: a Let_def list_of_def)
qed

subsection \<open>Trees, and stores that differ in inert flags only\<close>




lemma set_inert_simps [simp]:
  "effects (set_inert S h a) = effects (h a)"
  "transitions (set_inert S h a) = transitions (h a)"
  "transparent (set_inert S h) a = transparent h a"
  "a \<notin> S \<Longrightarrow> set_inert S h a = h a"
  "a \<notin> S \<Longrightarrow> is_inert (set_inert S h) a = is_inert h a"
  "set_inert {} h = h"
  "set_inert S2 (set_inert S1 h) = set_inert (S1 \<union> S2) h"
  by (auto simp: set_inert_def transparent_def is_inert_def)

lemma transparent_set_inert [simp]: "transparent (set_inert S h) = transparent h"
  by (rule ext) simp

lemma in_store_set_inert [simp]: "in_store (set_inert S h) t = in_store h t"
  by (induction t) (auto simp: list_all_iff)

lemma in_store_set_inert' [simp]: "in_store (set_inert S h) = in_store h"
  by (rule ext) simp


lemma eligible_set_inert [simp]: "eligible (set_inert S h) local p = eligible h local p"
  by (simp add: eligible_def)





subsection \<open>pause_children on a tree of the store\<close>

lemma world_heap_same [simp]: "w\<lparr>heap := heap w\<rparr> = w"
  by simp

lemma flag_test [simp]: "(g \<inter> {x} \<noteq> {}) = (x \<in> g)" "(g \<inter> {x} = {}) = (x \<notin> g)"
  by auto









lemma pause_reaches_Cons [simp]:
  "pause_reaches h (a # p) = (\<not> is_inert h a \<and> pause_reaches h p)"
  "pause_reaches h [] = True"
  by (simp_all add: pause_reaches_def)




subsection \<open>resume_children on a tree of the store\<close>

lemma resume_reaches_Cons [simp]:
  "resume_reaches h (a # p) = (is_inert h a \<and> resume_reaches h p)"
  "resume_reaches h [] = True"
  by (simp_all add: resume_reaches_def)



lemma clear_inert_simps [simp]:
  "effects (clear_inert S h a) = effects (h a)"
  "transitions (clear_inert S h a) = transitions (h a)"
  "transparent (clear_inert S h) a = transparent h a"
  "a \<notin> S \<Longrightarrow> clear_inert S h a = h a"
  "a \<notin> S \<Longrightarrow> is_inert (clear_inert S h) a = is_inert h a"
  "clear_inert {} h = h"
  "clear_inert S2 (clear_inert S1 h) = clear_inert (S1 \<union> S2) h"
  by (auto simp: clear_inert_def transparent_def is_inert_def)

lemma transparent_clear_inert [simp]: "transparent (clear_inert S h) = transparent h"
  by (rule ext) simp

lemma in_store_clear_inert [simp]: "in_store (clear_inert S h) = in_store h"
proof (rule ext)
  fix t show "in_store (clear_inert S h) t = in_store h t"
    by (induction t) (auto simp: list_all_iff)
qed


lemma eligible_clear_inert [simp]: "eligible (clear_inert S h) local p = eligible h local p"
  by (simp add: eligible_def)










lemma world_same2 [simp]: "w\<lparr>heap := heap w, trace := trace w\<rparr> = w"
  by simp



subsection \<open>out and check\<close>








subsection \<open>A pause undone\<close>











subsection \<open>Pause\<close>



subsection \<open>Resume\<close>



subsection \<open>Pause, then resume\<close>




subsection \<open>destroy_effect on an owned tree of the store\<close>


lemma owned_root_in: "owned_root t \<in> set (owned_nodes t)"
  by (cases t) simp
















subsection \<open>Destroy\<close>



subsection \<open>Roots\<close>



end
